theory Spec2Isabelle
  imports Main
begin

section \<open>Data model of the scheduler routes\<close>

text \<open>
  The routes of \<^verbatim>\<open>app/schedulers/routes/scheduler.py\<close> work on two pieces of state:
  the jobs held by the process-wide scheduler (what \<^verbatim>\<open>scheduler.get_jobs()\<close> enumerates)
  and the \<^verbatim>\<open>JobMetadata\<close> rows reached through the database session.

  The scheduler is the APScheduler library. A job carries an interval trigger (a start
  date and an interval) and a next run time; a job is paused when it has no next run
  time. Times are whole seconds counted from the first representable date
  (0001-01-01 00:00:00); the last representable second is \<open>datetime_max\<close>
  (9999-12-31 23:59:59). The clock is read once per request.
\<close>

datatype run_state = Scheduled | Paused

record trigger =
  start_date :: int
  interval_seconds :: int

record job =
  job_id :: string
  job_name :: string
  job_trigger :: trigger
  next_run_time :: "int option"

definition state :: "job \<Rightarrow> run_state" where
  "state j = (case next_run_time j of None \<Rightarrow> Paused | Some t \<Rightarrow> Scheduled)"

record job_metadata =
  md_job_id :: string
  time_interval :: int
  enabled :: bool

text \<open>
  The order in which one request mutates the two sides is kept in a history: every
  write to the scheduler and every committed write to the table appends one entry.
\<close>

datatype effect = EngineWrite string | StoreWrite string

record world =
  jobs :: "job list"
  rows :: "job_metadata list"
  history :: "effect list"
  clock :: int

text \<open>
  Exceptions that escape a route: attribute access or \<^verbatim>\<open>setattr\<close> on \<^verbatim>\<open>None\<close>
  raises \<^verbatim>\<open>AttributeError\<close>, \<^verbatim>\<open>session.delete(None)\<close> raises
  \<^verbatim>\<open>UnmappedInstanceError\<close>, and an interval that leads outside the representable
  dates raises \<^verbatim>\<open>OverflowError\<close>.
\<close>

datatype error = AttributeError | UnmappedInstanceError | OverflowError

record response =
  success :: bool
  message :: string

record job_entry =
  entry_id :: string
  entry_name :: string
  entry_time_interval :: int
  entry_enabled :: bool

record jobs_response =
  jobs_listed :: "job_entry list"
  jobs_success :: bool
  jobs_message :: string

text \<open>The keyword arguments \<^verbatim>\<open>manage_job_metadata\<close> assigns with \<^verbatim>\<open>setattr\<close>.\<close>

datatype kwarg = Kw_time_interval int | Kw_enabled bool

section \<open>The scheduler side\<close>

text \<open>\<^verbatim>\<open>find_job_by_id\<close>: the first job of the enumeration with the given id.\<close>

fun find_job_by_id :: "job list \<Rightarrow> string \<Rightarrow> job option" where
  "find_job_by_id [] jid = None"
| "find_job_by_id (j # js) jid =
     (if job_id j = jid then Some j else find_job_by_id js jid)"

text \<open>
  The job store keeps its jobs sorted by next run time, paused jobs last, and by id
  among jobs of equal next run time; ids are compared as Python compares strings.
  \<^verbatim>\<open>scheduler.get_jobs()\<close> enumerates in that order. When a job is modified, its
  entry is taken out and the modified job is filed at its place in the order; the
  other jobs stay as they are.
\<close>

fun id_less :: "string \<Rightarrow> string \<Rightarrow> bool" where
  "id_less [] [] = False"
| "id_less [] (y # ys) = True"
| "id_less (x # xs) [] = False"
| "id_less (x # xs) (y # ys) =
     ((of_char x :: nat) < of_char y \<or> (x = y \<and> id_less xs ys))"

definition files_after :: "job \<Rightarrow> job \<Rightarrow> bool" where
  "files_after x y =
     (case next_run_time y of
        None \<Rightarrow> next_run_time x = None \<and> id_less (job_id y) (job_id x)
      | Some t \<Rightarrow>
          (case next_run_time x of
             None \<Rightarrow> True
           | Some s \<Rightarrow> t < s \<or> (t = s \<and> id_less (job_id y) (job_id x))))"

fun insert_job :: "job \<Rightarrow> job list \<Rightarrow> job list" where
  "insert_job x [] = [x]"
| "insert_job x (y # ys) =
     (if files_after x y then y # insert_job x ys else x # y # ys)"

definition refile_job :: "job \<Rightarrow> job list \<Rightarrow> job list" where
  "refile_job x js = insert_job x (filter (\<lambda>y. job_id y \<noteq> job_id x) js)"

fun drop_job :: "string \<Rightarrow> job list \<Rightarrow> job list" where
  "drop_job jid [] = []"
| "drop_job jid (j # js) = (if job_id j = jid then js else j # drop_job jid js)"

text \<open>
  The interval trigger. The next fire time of a trigger that has not fired yet is its
  start date if that lies ahead, and otherwise the start date moved on by the least
  whole number of intervals that reaches the clock.

  \<^verbatim>\<open>reschedule(trigger="interval", minutes=m)\<close> builds a new trigger: the interval is
  \<^verbatim>\<open>m\<close> minutes, replaced by one second when it has length zero, and the start date
  is the clock plus the interval. No sign is checked; the construction raises
  \<^verbatim>\<open>OverflowError\<close> when the start date is not a representable date.
\<close>

definition datetime_max :: int where
  "datetime_max = 315537897599"

definition get_next_fire_time :: "trigger \<Rightarrow> int \<Rightarrow> int" where
  "get_next_fire_time tr now =
     (if now < start_date tr then start_date tr
      else start_date tr +
           interval_seconds tr * (- ((start_date tr - now) div interval_seconds tr)))"

definition interval_trigger :: "int \<Rightarrow> int \<Rightarrow> error + trigger" where
  "interval_trigger m now =
     (let len = (if 60 * m = 0 then 1 else 60 * m) in
      if now + len < 0 \<or> datetime_max < now + len then Inl OverflowError
      else Inr \<lparr>start_date = now + len, interval_seconds = len\<rparr>)"

text \<open>
  \<^verbatim>\<open>job.resume()\<close> computes the next run time from the job's trigger and the clock,
  \<^verbatim>\<open>job.pause()\<close> takes the next run time away,
  \<^verbatim>\<open>job.reschedule(trigger="interval", minutes=m)\<close> installs the new trigger with
  its next run time (or raises, and then nothing is written), and
  \<^verbatim>\<open>scheduler.remove_job(id)\<close> drops the job.
\<close>

definition job_resume :: "job \<Rightarrow> world \<Rightarrow> world" where
  "job_resume j w =
     w\<lparr>jobs := refile_job
                 (j\<lparr>next_run_time := Some (get_next_fire_time (job_trigger j) (clock w))\<rparr>)
                 (jobs w),
       history := history w @ [EngineWrite (job_id j)]\<rparr>"

definition job_pause :: "job \<Rightarrow> world \<Rightarrow> world" where
  "job_pause j w =
     w\<lparr>jobs := refile_job (j\<lparr>next_run_time := None\<rparr>) (jobs w),
       history := history w @ [EngineWrite (job_id j)]\<rparr>"

definition job_reschedule :: "job \<Rightarrow> int \<Rightarrow> world \<Rightarrow> error + world" where
  "job_reschedule j m w =
     (case interval_trigger m (clock w) of
        Inl e \<Rightarrow> Inl e
      | Inr tr \<Rightarrow>
          Inr (w\<lparr>jobs := refile_job
                           (j\<lparr>job_trigger := tr,
                              next_run_time := Some (get_next_fire_time tr (clock w))\<rparr>)
                           (jobs w),
                 history := history w @ [EngineWrite (job_id j)]\<rparr>))"

definition remove_job :: "string \<Rightarrow> world \<Rightarrow> world" where
  "remove_job jid w =
     w\<lparr>jobs := drop_job jid (jobs w), history := history w @ [EngineWrite jid]\<rparr>"

section \<open>The metadata table\<close>

text \<open>\<^verbatim>\<open>select(JobMetadata).filter_by(job_id=...)\<close> followed by \<^verbatim>\<open>.scalars().first()\<close>.\<close>

fun first_row :: "job_metadata list \<Rightarrow> string \<Rightarrow> job_metadata option" where
  "first_row [] jid = None"
| "first_row (r # rs) jid =
     (if md_job_id r = jid then Some r else first_row rs jid)"

fun setattr_row :: "job_metadata \<Rightarrow> kwarg \<Rightarrow> job_metadata" where
  "setattr_row r (Kw_time_interval n) = r\<lparr>time_interval := n\<rparr>"
| "setattr_row r (Kw_enabled b) = r\<lparr>enabled := b\<rparr>"

fun store_row :: "string \<Rightarrow> job_metadata \<Rightarrow> job_metadata list \<Rightarrow> job_metadata list" where
  "store_row jid r' [] = []"
| "store_row jid r' (r # rs) =
     (if md_job_id r = jid then r' # rs else r # store_row jid r' rs)"

fun delete_row :: "string \<Rightarrow> job_metadata list \<Rightarrow> job_metadata list" where
  "delete_row jid [] = []"
| "delete_row jid (r # rs) = (if md_job_id r = jid then rs else r # delete_row jid rs)"

text \<open>
  \<^verbatim>\<open>manage_job_metadata(session, job_id, action, **kwargs)\<close>. The row fetched may be
  \<^verbatim>\<open>None\<close>: then the first \<^verbatim>\<open>setattr\<close> of an update raises, and so does the
  \<^verbatim>\<open>session.delete\<close> of a delete; nothing has been committed at that point.
\<close>

definition manage_job_metadata ::
  "string \<Rightarrow> string \<Rightarrow> kwarg list \<Rightarrow> world \<Rightarrow> (error + job_metadata option) \<times> world" where
  "manage_job_metadata jid action kwargs w =
     (let found = first_row (rows w) jid in
      if action = ''update'' then
        (case found of
           None \<Rightarrow> (if kwargs = [] then (Inr None, w) else (Inl AttributeError, w))
         | Some r \<Rightarrow>
             (let r' = foldl setattr_row r kwargs in
              (Inr (Some r'),
               w\<lparr>rows := store_row jid r' (rows w),
                 history := history w @ [StoreWrite jid]\<rparr>)))
      else if action = ''delete'' then
        (case found of
           None \<Rightarrow> (Inl UnmappedInstanceError, w)
         | Some r \<Rightarrow>
             (Inr (Some r),
              w\<lparr>rows := delete_row jid (rows w),
                history := history w @ [StoreWrite jid]\<rparr>))
      else (Inr found, w))"

section \<open>The routes\<close>

definition not_found :: response where
  "not_found = \<lparr>success = False, message = ''Job not found''\<rparr>"

text \<open>\<^verbatim>\<open>get_all_jobs\<close>: the loop appends one entry per job; a job without a row raises.\<close>

fun collect_jobs :: "job_metadata list \<Rightarrow> job list \<Rightarrow> job_entry list \<Rightarrow> error + job_entry list" where
  "collect_jobs rs [] acc = Inr acc"
| "collect_jobs rs (j # js) acc =
     (case first_row rs (job_id j) of
        None \<Rightarrow> Inl AttributeError
      | Some r \<Rightarrow>
          collect_jobs rs js
            (acc @ [\<lparr>entry_id = job_id j, entry_name = job_name j,
                     entry_time_interval = time_interval r, entry_enabled = enabled r\<rparr>]))"

definition get_all_jobs :: "world \<Rightarrow> (error + jobs_response) \<times> world" where
  "get_all_jobs w =
     (case collect_jobs (rows w) (jobs w) [] of
        Inl e \<Rightarrow> (Inl e, w)
      | Inr apscheduler_jobs \<Rightarrow>
          (Inr \<lparr>jobs_listed = apscheduler_jobs, jobs_success = True,
                jobs_message = ''Jobs successfully retrieved.''\<rparr>, w))"

definition start_job :: "string \<Rightarrow> world \<Rightarrow> (error + response) \<times> world" where
  "start_job jid w =
     (case find_job_by_id (jobs w) jid of
        Some j \<Rightarrow>
          (Inr \<lparr>success = True, message = ''Job started successfully''\<rparr>, job_resume j w)
      | None \<Rightarrow> (Inr not_found, w))"

definition pause_job :: "string \<Rightarrow> world \<Rightarrow> (error + response) \<times> world" where
  "pause_job jid w =
     (case find_job_by_id (jobs w) jid of
        Some j \<Rightarrow>
          (Inr \<lparr>success = True, message = ''Job paused successfully''\<rparr>, job_pause j w)
      | None \<Rightarrow> (Inr not_found, w))"

definition update_job :: "string \<Rightarrow> int \<Rightarrow> world \<Rightarrow> (error + response) \<times> world" where
  "update_job jid m w =
     (case find_job_by_id (jobs w) jid of
        Some j \<Rightarrow>
          (case job_reschedule j m w of
             Inl e \<Rightarrow> (Inl e, w)
           | Inr w1 \<Rightarrow>
               (case manage_job_metadata jid ''update'' [Kw_time_interval m] w1 of
                  (Inl e, w') \<Rightarrow> (Inl e, w')
                | (Inr _, w') \<Rightarrow>
                    (Inr \<lparr>success = True, message = ''Job updated successfully''\<rparr>, w')))
      | None \<Rightarrow> (Inr not_found, w))"

definition delete_job :: "string \<Rightarrow> world \<Rightarrow> (error + response) \<times> world" where
  "delete_job jid w =
     (case find_job_by_id (jobs w) jid of
        Some j \<Rightarrow>
          (case manage_job_metadata jid ''delete'' [] (remove_job jid w) of
             (Inl e, w') \<Rightarrow> (Inl e, w')
           | (Inr _, w') \<Rightarrow>
               (Inr \<lparr>success = True, message = ''Job deleted successfully''\<rparr>, w'))
      | None \<Rightarrow> (Inr not_found, w))"

section \<open>Sequences of control calls and what is observed of a job\<close>

text \<open>
  A run of \<^verbatim>\<open>start_job\<close>, \<^verbatim>\<open>pause_job\<close> and \<^verbatim>\<open>update_job\<close> calls on one job id,
  each made at its own time, goes on as long as each call returns
  \<^verbatim>\<open>success = True\<close>; it is abandoned at the first call that raises or answers
  \<^verbatim>\<open>success = False\<close>. The observers read the run state and the trigger's interval
  (in seconds) of a job from the scheduler, and the \<^verbatim>\<open>enabled\<close> flag and
  \<^verbatim>\<open>time_interval\<close> (in minutes) of its row from the table.
\<close>

datatype command = Start | Pause | Update int

fun run_command :: "string \<Rightarrow> int \<times> command \<Rightarrow> world \<Rightarrow> (error + response) \<times> world" where
  "run_command jid (t, Start) w = start_job jid (w\<lparr>clock := t\<rparr>)"
| "run_command jid (t, Pause) w = pause_job jid (w\<lparr>clock := t\<rparr>)"
| "run_command jid (t, Update m) w = update_job jid m (w\<lparr>clock := t\<rparr>)"

fun run_commands :: "string \<Rightarrow> (int \<times> command) list \<Rightarrow> world \<Rightarrow> world option" where
  "run_commands jid [] w = Some w"
| "run_commands jid (c # cs) w =
     (case run_command jid c w of
        (Inl e, w') \<Rightarrow> None
      | (Inr r, w') \<Rightarrow> (if success r then run_commands jid cs w' else None))"

definition engine_state :: "world \<Rightarrow> string \<Rightarrow> run_state option" where
  "engine_state w jid = map_option state (find_job_by_id (jobs w) jid)"

definition engine_interval :: "world \<Rightarrow> string \<Rightarrow> int option" where
  "engine_interval w jid =
     map_option (\<lambda>j. interval_seconds (job_trigger j)) (find_job_by_id (jobs w) jid)"

definition store_enabled :: "world \<Rightarrow> string \<Rightarrow> bool option" where
  "store_enabled w jid = map_option enabled (first_row (rows w) jid)"

definition store_interval :: "world \<Rightarrow> string \<Rightarrow> int option" where
  "store_interval w jid = map_option time_interval (first_row (rows w) jid)"

section \<open>Concrete scheduler states\<close>

text \<open>
  Two jobs with their metadata rows at 09:00 on 2026-11-04, the first scheduled every
  ten minutes and the second paused; the same scheduler with the row of the second job
  missing; and the first state after the second job was rescheduled to 30 minutes,
  paused and started, one minute apart.
\<close>

definition morning :: int where
  "morning = 63929379600"

definition scan1 :: job where
  "scan1 = \<lparr>job_id = ''scan-1'', job_name = ''Periodic scan'',
             job_trigger = \<lparr>start_date = morning + 600, interval_seconds = 600\<rparr>,
             next_run_time = Some (morning + 600)\<rparr>"

definition poll2 :: job where
  "poll2 = \<lparr>job_id = ''poll-2'', job_name = ''Alert polling'',
             job_trigger = \<lparr>start_date = morning + 300, interval_seconds = 300\<rparr>,
             next_run_time = None\<rparr>"

definition scan1_row :: job_metadata where
  "scan1_row = \<lparr>md_job_id = ''scan-1'', time_interval = 10, enabled = True\<rparr>"

definition poll2_row :: job_metadata where
  "poll2_row = \<lparr>md_job_id = ''poll-2'', time_interval = 5, enabled = False\<rparr>"

definition synced_world :: world where
  "synced_world =
     \<lparr>jobs = [scan1, poll2], rows = [scan1_row, poll2_row], history = [], clock = morning\<rparr>"

definition orphan_world :: world where
  "orphan_world =
     \<lparr>jobs = [scan1, poll2], rows = [scan1_row], history = [], clock = morning\<rparr>"

definition rescheduled_world :: world where
  "rescheduled_world =
     \<lparr>jobs = [scan1,
              poll2\<lparr>job_trigger := \<lparr>start_date = morning + 1860, interval_seconds = 1800\<rparr>,
                    next_run_time := Some (morning + 1860)\<rparr>],
      rows = [scan1_row, poll2_row\<lparr>time_interval := 30\<rparr>],
      history = [EngineWrite ''poll-2'', StoreWrite ''poll-2'',
                 EngineWrite ''poll-2'', EngineWrite ''poll-2''],
      clock = morning + 180\<rparr>"

lemmas demo_defs =
  scan1_def poll2_def scan1_row_def poll2_row_def synced_world_def orphan_world_def
  rescheduled_world_def morning_def

lemmas observer_defs =
  engine_state_def engine_interval_def store_enabled_def store_interval_def

lemmas route_defs =
  update_job_def delete_job_def start_job_def pause_job_def manage_job_metadata_def Let_def
  job_reschedule_def job_resume_def job_pause_def remove_job_def interval_trigger_def
  get_next_fire_time_def datetime_max_def refile_job_def files_after_def

section \<open>Lookups, filing and single-row updates\<close>

lemma find_job_by_id_None: "find_job_by_id js jid = None \<longleftrightarrow> jid \<notin> job_id ` set js"
  by (induction js) auto

lemma find_job_by_id_Some:
  "find_job_by_id js jid = Some j \<Longrightarrow> job_id j = jid \<and> j \<in> set js"
  by (induction js) (auto split: if_splits)

lemma find_job_by_id_insert_other:
  "k \<noteq> job_id x \<Longrightarrow> find_job_by_id (insert_job x ys) k = find_job_by_id ys k"
  by (induction ys) auto

lemma find_job_by_id_insert_same:
  "find_job_by_id ys (job_id x) = None \<Longrightarrow>
   find_job_by_id (insert_job x ys) (job_id x) = Some x"
  by (induction ys) (auto split: if_splits)

lemma find_job_by_id_filter:
  "find_job_by_id (filter (\<lambda>y. job_id y \<noteq> jid) js) k =
     (if k = jid then None else find_job_by_id js k)"
  by (induction js) auto

lemma find_job_by_id_refile:
  "find_job_by_id (refile_job x js) k =
     (if k = job_id x then Some x else find_job_by_id js k)"
  by (simp add: refile_job_def find_job_by_id_insert_other find_job_by_id_insert_same
        find_job_by_id_filter)

lemma filter_insert_job:
  "filter (\<lambda>y. job_id y \<noteq> job_id x) (insert_job x ys) =
   filter (\<lambda>y. job_id y \<noteq> job_id x) ys"
  by (induction ys) auto

lemma refile_job_twice: "refile_job x (refile_job x js) = refile_job x js"
  by (simp add: refile_job_def filter_insert_job)

lemma first_row_Some:
  "first_row rs jid = Some r \<Longrightarrow> md_job_id r = jid \<and> r \<in> set rs"
  by (induction rs) (auto split: if_splits)

lemma first_row_None: "first_row rs jid = None \<longleftrightarrow> jid \<notin> md_job_id ` set rs"
  by (induction rs) auto

lemma first_row_store_row:
  "md_job_id r' = jid \<Longrightarrow>
   first_row (store_row jid r' rs) k =
     (if k = jid then map_option (\<lambda>_. r') (first_row rs jid) else first_row rs k)"
  by (induction rs) auto

section \<open>The routes on a job that is found\<close>

lemma start_job_found:
  assumes j: "find_job_by_id (jobs w) jid = Some j"
  shows "start_job jid w =
    (Inr \<lparr>success = True, message = ''Job started successfully''\<rparr>,
     w\<lparr>jobs := refile_job
                 (j\<lparr>next_run_time := Some (get_next_fire_time (job_trigger j) (clock w))\<rparr>)
                 (jobs w),
       history := history w @ [EngineWrite jid]\<rparr>)"
proof -
  from j have "job_id j = jid" by (simp add: find_job_by_id_Some)
  with j show ?thesis by (simp add: start_job_def job_resume_def)
qed

lemma pause_job_found:
  assumes j: "find_job_by_id (jobs w) jid = Some j"
  shows "pause_job jid w =
    (Inr \<lparr>success = True, message = ''Job paused successfully''\<rparr>,
     w\<lparr>jobs := refile_job (j\<lparr>next_run_time := None\<rparr>) (jobs w),
       history := history w @ [EngineWrite jid]\<rparr>)"
proof -
  from j have "job_id j = jid" by (simp add: find_job_by_id_Some)
  with j show ?thesis by (simp add: pause_job_def job_pause_def)
qed

lemma update_job_refused:
  assumes j: "find_job_by_id (jobs w) jid = Some j"
    and t: "interval_trigger m (clock w) = Inl e"
  shows "update_job jid m w = (Inl e, w)"
  using j t by (simp add: update_job_def job_reschedule_def)

lemma update_job_found:
  assumes j: "find_job_by_id (jobs w) jid = Some j"
    and t: "interval_trigger m (clock w) = Inr tr"
    and r: "first_row (rows w) jid = Some r"
  shows "update_job jid m w =
    (Inr \<lparr>success = True, message = ''Job updated successfully''\<rparr>,
     w\<lparr>jobs := refile_job
                 (j\<lparr>job_trigger := tr,
                    next_run_time := Some (get_next_fire_time tr (clock w))\<rparr>)
                 (jobs w),
       rows := store_row jid (r\<lparr>time_interval := m\<rparr>) (rows w),
       history := history w @ [EngineWrite jid, StoreWrite jid]\<rparr>)"
proof -
  from j have "job_id j = jid" by (simp add: find_job_by_id_Some)
  with j t r show ?thesis
    by (simp add: update_job_def manage_job_metadata_def Let_def job_reschedule_def)
qed

lemma update_job_no_row:
  assumes j: "find_job_by_id (jobs w) jid = Some j"
    and r: "first_row (rows w) jid = None"
  shows "\<exists>e. fst (update_job jid m w) = Inl e"
  using j r
  by (simp add: update_job_def manage_job_metadata_def Let_def job_reschedule_def
        split: sum.split)

section \<open>Unknown job ids\<close>

text \<open>
  C5: for a job id that the scheduler does not hold, \<^verbatim>\<open>start_job\<close> answers
  \<^verbatim>\<open>{"success": False, "message": "Job not found"}\<close>.
\<close>

theorem start_job_unknown:
  "jid \<notin> job_id ` set (jobs w) \<Longrightarrow>
   fst (start_job jid w) = Inr \<lparr>success = False, message = ''Job not found''\<rparr>"
  by (simp add: start_job_def not_found_def find_job_by_id_None [symmetric])

theorem start_job_unknown_witness:
  "''ghost'' \<notin> job_id ` set (jobs synced_world) \<and>
   fst (start_job ''ghost'' synced_world) =
     Inr \<lparr>success = False, message = ''Job not found''\<rparr>"
proof -
  have h: "''ghost'' \<notin> job_id ` set (jobs synced_world)"
    by (simp add: demo_defs)
  from h start_job_unknown [OF h] show ?thesis by simp
qed

text \<open>
  C8: for a job id that the scheduler does not hold, each of \<^verbatim>\<open>start_job\<close>,
  \<^verbatim>\<open>pause_job\<close>, \<^verbatim>\<open>update_job\<close> and \<^verbatim>\<open>delete_job\<close> answers exactly
  \<^verbatim>\<open>{"success": False, "message": "Job not found"}\<close> and leaves the scheduler's
  jobs and the whole metadata table as they were.
\<close>

theorem not_found_atomic:
  "jid \<notin> job_id ` set (jobs w) \<Longrightarrow>
   start_job jid w = (Inr \<lparr>success = False, message = ''Job not found''\<rparr>, w) \<and>
   pause_job jid w = (Inr \<lparr>success = False, message = ''Job not found''\<rparr>, w) \<and>
   update_job jid m w = (Inr \<lparr>success = False, message = ''Job not found''\<rparr>, w) \<and>
   delete_job jid w = (Inr \<lparr>success = False, message = ''Job not found''\<rparr>, w)"
  by (simp add: start_job_def pause_job_def update_job_def delete_job_def not_found_def
        find_job_by_id_None [symmetric])

theorem not_found_atomic_witness:
  "''ghost'' \<notin> job_id ` set (jobs synced_world) \<and>
   start_job ''ghost'' synced_world =
     (Inr \<lparr>success = False, message = ''Job not found''\<rparr>, synced_world) \<and>
   pause_job ''ghost'' synced_world =
     (Inr \<lparr>success = False, message = ''Job not found''\<rparr>, synced_world) \<and>
   update_job ''ghost'' 30 synced_world =
     (Inr \<lparr>success = False, message = ''Job not found''\<rparr>, synced_world) \<and>
   delete_job ''ghost'' synced_world =
     (Inr \<lparr>success = False, message = ''Job not found''\<rparr>, synced_world)"
proof -
  have h: "''ghost'' \<notin> job_id ` set (jobs synced_world)"
    by (simp add: demo_defs)
  from h not_found_atomic [OF h, of 30] show ?thesis by simp
qed

text \<open>
  The claim that \<^verbatim>\<open>delete_job\<close> reports success for an unknown id fails: the route
  has the same not-found branch as the other three.
\<close>

theorem delete_job_unknown_counterexample:
  "''ghost'' \<notin> job_id ` set (jobs synced_world) \<and>
   fst (delete_job ''ghost'' synced_world) = Inr \<lparr>success = False, message = ''Job not found''\<rparr>"
  by (simp add: delete_job_def not_found_def demo_defs)

text \<open>
  C3 (amended): for a job id that the scheduler does not hold, \<^verbatim>\<open>delete_job\<close> is a
  no-op on the scheduler and on the metadata table, and it answers
  \<^verbatim>\<open>{"success": False, "message": "Job not found"}\<close>.
\<close>

theorem delete_job_unknown:
  "jid \<notin> job_id ` set (jobs w) \<Longrightarrow>
   delete_job jid w = (Inr \<lparr>success = False, message = ''Job not found''\<rparr>, w)"
  by (simp add: delete_job_def not_found_def find_job_by_id_None [symmetric])

theorem delete_job_unknown_witness:
  "''ghost'' \<notin> job_id ` set (jobs orphan_world) \<and>
   delete_job ''ghost'' orphan_world =
     (Inr \<lparr>success = False, message = ''Job not found''\<rparr>, orphan_world)"
proof -
  have h: "''ghost'' \<notin> job_id ` set (jobs orphan_world)"
    by (simp add: demo_defs)
  from h delete_job_unknown [OF h] show ?thesis by simp
qed

section \<open>Starting and pausing\<close>

text \<open>
  C9: \<^verbatim>\<open>start_job\<close> and \<^verbatim>\<open>pause_job\<close> neither write nor read the metadata table:
  the rows after the call are the rows before it, whether or not the job is found, and
  running the route on any other table gives the same answer and the same scheduler.
  In the scheduler every job of another id is what it was before, and the job of the
  given id keeps its id, name and trigger: only its run state (its next run time) can
  differ.
\<close>

theorem start_pause_frame:
  "rows (snd (start_job jid w)) = rows w \<and>
   rows (snd (pause_job jid w)) = rows w \<and>
   start_job jid (w\<lparr>rows := rs\<rparr>) =
     (fst (start_job jid w), (snd (start_job jid w))\<lparr>rows := rs\<rparr>) \<and>
   pause_job jid (w\<lparr>rows := rs\<rparr>) =
     (fst (pause_job jid w), (snd (pause_job jid w))\<lparr>rows := rs\<rparr>) \<and>
   (\<forall>k. k \<noteq> jid \<longrightarrow>
      find_job_by_id (jobs (snd (start_job jid w))) k = find_job_by_id (jobs w) k \<and>
      find_job_by_id (jobs (snd (pause_job jid w))) k = find_job_by_id (jobs w) k) \<and>
   map_option (\<lambda>j. (job_id j, job_name j, job_trigger j))
       (find_job_by_id (jobs (snd (start_job jid w))) jid) =
     map_option (\<lambda>j. (job_id j, job_name j, job_trigger j)) (find_job_by_id (jobs w) jid) \<and>
   map_option (\<lambda>j. (job_id j, job_name j, job_trigger j))
       (find_job_by_id (jobs (snd (pause_job jid w))) jid) =
     map_option (\<lambda>j. (job_id j, job_name j, job_trigger j)) (find_job_by_id (jobs w) jid)"
proof -
  have store: "rows (snd (start_job jid w)) = rows w \<and>
   rows (snd (pause_job jid w)) = rows w \<and>
   start_job jid (w\<lparr>rows := rs\<rparr>) =
     (fst (start_job jid w), (snd (start_job jid w))\<lparr>rows := rs\<rparr>) \<and>
   pause_job jid (w\<lparr>rows := rs\<rparr>) =
     (fst (pause_job jid w), (snd (pause_job jid w))\<lparr>rows := rs\<rparr>)"
    by (simp add: start_job_def pause_job_def job_resume_def job_pause_def
          split: option.split)
  have engine: "(\<forall>k. k \<noteq> jid \<longrightarrow>
      find_job_by_id (jobs (snd (start_job jid w))) k = find_job_by_id (jobs w) k \<and>
      find_job_by_id (jobs (snd (pause_job jid w))) k = find_job_by_id (jobs w) k) \<and>
   map_option (\<lambda>j. (job_id j, job_name j, job_trigger j))
       (find_job_by_id (jobs (snd (start_job jid w))) jid) =
     map_option (\<lambda>j. (job_id j, job_name j, job_trigger j)) (find_job_by_id (jobs w) jid) \<and>
   map_option (\<lambda>j. (job_id j, job_name j, job_trigger j))
       (find_job_by_id (jobs (snd (pause_job jid w))) jid) =
     map_option (\<lambda>j. (job_id j, job_name j, job_trigger j)) (find_job_by_id (jobs w) jid)"
  proof (cases "find_job_by_id (jobs w) jid")
    case None
    then show ?thesis by (simp add: start_job_def pause_job_def)
  next
    case (Some j)
    then have "job_id j = jid" by (simp add: find_job_by_id_Some)
    with Some show ?thesis
      by (simp add: start_job_found [OF Some] pause_job_found [OF Some] find_job_by_id_refile)
  qed
  from store engine show ?thesis by simp
qed

theorem start_pause_frame_witness:
  "find_job_by_id (jobs (snd (start_job ''poll-2'' synced_world))) ''scan-1'' = Some scan1 \<and>
   find_job_by_id (jobs (snd (pause_job ''poll-2'' synced_world))) ''scan-1'' = Some scan1 \<and>
   find_job_by_id (jobs (snd (start_job ''poll-2'' synced_world))) ''poll-2'' =
     Some (poll2\<lparr>next_run_time := Some (morning + 300)\<rparr>) \<and>
   rows (snd (start_job ''poll-2'' synced_world)) = [scan1_row, poll2_row]"
proof -
  have a: "find_job_by_id (jobs synced_world) ''scan-1'' = Some scan1"
    by (simp add: demo_defs)
  have b: "find_job_by_id (jobs (snd (start_job ''poll-2'' synced_world))) ''poll-2'' =
     Some (poll2\<lparr>next_run_time := Some (morning + 300)\<rparr>)"
    by (simp add: route_defs demo_defs)
  have c: "rows synced_world = [scan1_row, poll2_row]"
    by (simp add: demo_defs)
  have d: "''scan-1'' \<noteq> ''poll-2''" by simp
  from start_pause_frame [of "''poll-2''" synced_world "[]"] a b c d show ?thesis
    by simp
qed

text \<open>
  C6: for a job the scheduler holds, \<^verbatim>\<open>pause_job\<close> succeeds, a second
  \<^verbatim>\<open>pause_job\<close> right after it succeeds again, and the second call leaves the
  scheduler's jobs and the metadata rows exactly as the first call left them (the job
  is paused).
\<close>

theorem pause_job_idempotent:
  assumes "jid \<in> job_id ` set (jobs w)"
  shows "fst (pause_job jid w) = Inr \<lparr>success = True, message = ''Job paused successfully''\<rparr> \<and>
    fst (pause_job jid (snd (pause_job jid w))) =
      Inr \<lparr>success = True, message = ''Job paused successfully''\<rparr> \<and>
    jobs (snd (pause_job jid (snd (pause_job jid w)))) = jobs (snd (pause_job jid w)) \<and>
    rows (snd (pause_job jid (snd (pause_job jid w)))) = rows (snd (pause_job jid w)) \<and>
    map_option state (find_job_by_id (jobs (snd (pause_job jid w))) jid) = Some Paused"
proof -
  from assms obtain j where j: "find_job_by_id (jobs w) jid = Some j"
    using find_job_by_id_None [of "jobs w" jid] by (cases "find_job_by_id (jobs w) jid") auto
  then have id: "job_id j = jid"
    by (simp add: find_job_by_id_Some)
  let ?p = "j\<lparr>next_run_time := None\<rparr>"
  let ?w1 = "w\<lparr>jobs := refile_job ?p (jobs w), history := history w @ [EngineWrite jid]\<rparr>"
  have first: "pause_job jid w =
      (Inr \<lparr>success = True, message = ''Job paused successfully''\<rparr>, ?w1)"
    by (rule pause_job_found [OF j])
  have found: "find_job_by_id (jobs ?w1) jid = Some ?p"
    using id by (simp add: find_job_by_id_refile)
  have second: "pause_job jid ?w1 =
      (Inr \<lparr>success = True, message = ''Job paused successfully''\<rparr>,
       ?w1\<lparr>jobs := refile_job (?p\<lparr>next_run_time := None\<rparr>) (jobs ?w1),
          history := history ?w1 @ [EngineWrite jid]\<rparr>)"
    by (rule pause_job_found [OF found])
  show ?thesis
    using found by (simp add: first second refile_job_twice state_def)
qed

theorem pause_job_idempotent_witness:
  "''scan-1'' \<in> job_id ` set (jobs synced_world) \<and>
   fst (pause_job ''scan-1'' synced_world) =
     Inr \<lparr>success = True, message = ''Job paused successfully''\<rparr> \<and>
   fst (pause_job ''scan-1'' (snd (pause_job ''scan-1'' synced_world))) =
     Inr \<lparr>success = True, message = ''Job paused successfully''\<rparr> \<and>
   jobs (snd (pause_job ''scan-1'' (snd (pause_job ''scan-1'' synced_world)))) =
     jobs (snd (pause_job ''scan-1'' synced_world)) \<and>
   rows (snd (pause_job ''scan-1'' (snd (pause_job ''scan-1'' synced_world)))) =
     rows (snd (pause_job ''scan-1'' synced_world)) \<and>
   map_option state (find_job_by_id (jobs (snd (pause_job ''scan-1'' synced_world))) ''scan-1'') =
     Some Paused"
proof -
  have h: "''scan-1'' \<in> job_id ` set (jobs synced_world)"
    by (simp add: demo_defs)
  from h pause_job_idempotent [OF h] show ?thesis by simp
qed

section \<open>Order of the two writes\<close>

lemma manage_job_metadata_history:
  "history (snd (manage_job_metadata jid action kwargs w)) \<in>
     {history w, history w @ [StoreWrite jid]}"
  by (simp add: manage_job_metadata_def Let_def split: option.split)

text \<open>
  C7: within one call of \<^verbatim>\<open>start_job\<close>, \<^verbatim>\<open>pause_job\<close>, \<^verbatim>\<open>update_job\<close> or
  \<^verbatim>\<open>delete_job\<close>, the writes added to the history are none, the scheduler write
  alone, or the scheduler write followed by the table write: the table is never
  written before the scheduler.
\<close>

theorem engine_write_first:
  "history (snd (start_job jid w)) \<in> {history w, history w @ [EngineWrite jid]} \<and>
   history (snd (pause_job jid w)) \<in> {history w, history w @ [EngineWrite jid]} \<and>
   history (snd (update_job jid m w)) \<in>
     {history w, history w @ [EngineWrite jid],
      history w @ [EngineWrite jid, StoreWrite jid]} \<and>
   history (snd (delete_job jid w)) \<in>
     {history w, history w @ [EngineWrite jid],
      history w @ [EngineWrite jid, StoreWrite jid]}"
proof -
  have s: "history (snd (start_job jid w)) \<in> {history w, history w @ [EngineWrite jid]}"
    by (auto simp: start_job_def job_resume_def split: option.split
          dest: find_job_by_id_Some)
  have p: "history (snd (pause_job jid w)) \<in> {history w, history w @ [EngineWrite jid]}"
    by (auto simp: pause_job_def job_pause_def split: option.split
          dest: find_job_by_id_Some)
  have u: "history (snd (update_job jid m w)) \<in>
     {history w, history w @ [EngineWrite jid],
      history w @ [EngineWrite jid, StoreWrite jid]}"
  proof (cases "find_job_by_id (jobs w) jid")
    case None
    then show ?thesis by (simp add: update_job_def)
  next
    case (Some j)
    then have id: "job_id j = jid" by (simp add: find_job_by_id_Some)
    show ?thesis
    proof (cases "job_reschedule j m w")
      case (Inl e)
      with Some show ?thesis by (simp add: update_job_def)
    next
      case (Inr w1)
      then have "history w1 = history w @ [EngineWrite jid]"
        by (auto simp: job_reschedule_def id split: sum.splits)
      with manage_job_metadata_history [of jid "''update''" "[Kw_time_interval m]" w1]
      show ?thesis
        using Some Inr by (auto simp: update_job_def split: prod.split sum.split)
    qed
  qed
  have d: "history (snd (delete_job jid w)) \<in>
     {history w, history w @ [EngineWrite jid],
      history w @ [EngineWrite jid, StoreWrite jid]}"
  proof (cases "find_job_by_id (jobs w) jid")
    case None
    then show ?thesis by (simp add: delete_job_def)
  next
    case (Some j)
    have "history (remove_job jid w) = history w @ [EngineWrite jid]"
      by (simp add: remove_job_def)
    with manage_job_metadata_history [of jid "''delete''" "[]" "remove_job jid w"]
    show ?thesis
      using Some by (auto simp: delete_job_def split: prod.split sum.split)
  qed
  from s p u d show ?thesis by blast
qed

theorem engine_write_first_witness:
  "history (snd (update_job ''scan-1'' 30 synced_world)) =
     [EngineWrite ''scan-1'', StoreWrite ''scan-1''] \<and>
   history (snd (delete_job ''poll-2'' synced_world)) =
     [EngineWrite ''poll-2'', StoreWrite ''poll-2''] \<and>
   history (snd (delete_job ''poll-2'' orphan_world)) = [EngineWrite ''poll-2'']"
proof -
  have c: "history (snd (update_job ''scan-1'' 30 synced_world)) =
     [EngineWrite ''scan-1'', StoreWrite ''scan-1''] \<and>
   history (snd (delete_job ''poll-2'' synced_world)) =
     [EngineWrite ''poll-2'', StoreWrite ''poll-2''] \<and>
   history (snd (delete_job ''poll-2'' orphan_world)) = [EngineWrite ''poll-2'']"
    by (simp add: route_defs demo_defs)
  from engine_write_first [of "''scan-1''" synced_world 30] c show ?thesis
    by simp
qed

section \<open>Listing\<close>

lemma collect_jobs_all:
  "\<forall>j\<in>set js. first_row rs (job_id j) \<noteq> None \<Longrightarrow>
   collect_jobs rs js acc =
     Inr (acc @ map (\<lambda>j. \<lparr>entry_id = job_id j, entry_name = job_name j,
                 entry_time_interval = time_interval (the (first_row rs (job_id j))),
                 entry_enabled = enabled (the (first_row rs (job_id j)))\<rparr>) js)"
  by (induction js arbitrary: acc) auto

lemma collect_jobs_missing:
  "\<exists>j\<in>set js. first_row rs (job_id j) = None \<Longrightarrow>
   collect_jobs rs js acc = Inl AttributeError"
  by (induction js arbitrary: acc) (auto split: option.split)

text \<open>
  C10: when every job of the scheduler has a metadata row, \<^verbatim>\<open>get_all_jobs\<close> returns
  one entry per job, in the order of the scheduler's enumeration, each with the job's id
  and name and the \<^verbatim>\<open>time_interval\<close> and \<^verbatim>\<open>enabled\<close> of its row, with
  \<^verbatim>\<open>success = True\<close> and the message \<^verbatim>\<open>Jobs successfully retrieved.\<close>; the
  scheduler and the table are as before.
\<close>

theorem get_all_jobs_complete:
  "\<forall>j\<in>set (jobs w). first_row (rows w) (job_id j) \<noteq> None \<Longrightarrow>
   get_all_jobs w =
     (Inr \<lparr>jobs_listed =
             map (\<lambda>j. \<lparr>entry_id = job_id j, entry_name = job_name j,
                    entry_time_interval = time_interval (the (first_row (rows w) (job_id j))),
                    entry_enabled = enabled (the (first_row (rows w) (job_id j)))\<rparr>) (jobs w),
           jobs_success = True, jobs_message = ''Jobs successfully retrieved.''\<rparr>, w)"
  by (simp add: get_all_jobs_def collect_jobs_all)

theorem get_all_jobs_complete_witness:
  "map (\<lambda>j. first_row (rows synced_world) (job_id j)) (jobs synced_world) =
     [Some scan1_row, Some poll2_row] \<and>
   get_all_jobs synced_world =
     (Inr \<lparr>jobs_listed =
             [\<lparr>entry_id = ''scan-1'', entry_name = ''Periodic scan'',
               entry_time_interval = 10, entry_enabled = True\<rparr>,
              \<lparr>entry_id = ''poll-2'', entry_name = ''Alert polling'',
               entry_time_interval = 5, entry_enabled = False\<rparr>],
           jobs_success = True, jobs_message = ''Jobs successfully retrieved.''\<rparr>,
      synced_world)"
proof -
  have h: "\<forall>j\<in>set (jobs synced_world). first_row (rows synced_world) (job_id j) \<noteq> None"
    by (simp add: demo_defs)
  have r: "map (\<lambda>j. first_row (rows synced_world) (job_id j)) (jobs synced_world) =
     [Some scan1_row, Some poll2_row]"
    by (simp add: demo_defs)
  have "get_all_jobs synced_world =
     (Inr \<lparr>jobs_listed =
             map (\<lambda>j. \<lparr>entry_id = job_id j, entry_name = job_name j,
                    entry_time_interval =
                      time_interval (the (first_row (rows synced_world) (job_id j))),
                    entry_enabled =
                      enabled (the (first_row (rows synced_world) (job_id j)))\<rparr>)
               (jobs synced_world),
           jobs_success = True, jobs_message = ''Jobs successfully retrieved.''\<rparr>,
      synced_world)"
    by (rule get_all_jobs_complete [OF h])
  also have "map (\<lambda>j. \<lparr>entry_id = job_id j, entry_name = job_name j,
                    entry_time_interval =
                      time_interval (the (first_row (rows synced_world) (job_id j))),
                    entry_enabled =
                      enabled (the (first_row (rows synced_world) (job_id j)))\<rparr>)
               (jobs synced_world) =
             [\<lparr>entry_id = ''scan-1'', entry_name = ''Periodic scan'',
               entry_time_interval = 10, entry_enabled = True\<rparr>,
              \<lparr>entry_id = ''poll-2'', entry_name = ''Alert polling'',
               entry_time_interval = 5, entry_enabled = False\<rparr>]"
    by (simp add: demo_defs)
  finally show ?thesis using r by simp
qed

text \<open>
  The claim that a job without a metadata row is listed with a marker fails: with the
  row of the second job missing, the call raises and nothing is listed, although the
  first job has its row.
\<close>

theorem get_all_jobs_missing_row_counterexample:
  "first_row (rows orphan_world) ''scan-1'' \<noteq> None \<and>
   first_row (rows orphan_world) ''poll-2'' = None \<and>
   fst (get_all_jobs orphan_world) = Inl AttributeError"
  by (simp add: get_all_jobs_def demo_defs)

text \<open>
  C2 (amended): \<^verbatim>\<open>get_all_jobs\<close> has no marker for a missing row. It returns
  successfully, listing every job with its metadata, exactly when every job of the
  scheduler has a metadata row; otherwise the attribute access on \<^verbatim>\<open>None\<close> raises
  and the call returns no listing.
\<close>

theorem get_all_jobs_succeeds_iff:
  "fst (get_all_jobs w) =
     (if \<forall>j\<in>set (jobs w). first_row (rows w) (job_id j) \<noteq> None
      then Inr \<lparr>jobs_listed =
             map (\<lambda>j. \<lparr>entry_id = job_id j, entry_name = job_name j,
                    entry_time_interval = time_interval (the (first_row (rows w) (job_id j))),
                    entry_enabled = enabled (the (first_row (rows w) (job_id j)))\<rparr>) (jobs w),
           jobs_success = True, jobs_message = ''Jobs successfully retrieved.''\<rparr>
      else Inl AttributeError)"
proof (cases "\<forall>j\<in>set (jobs w). first_row (rows w) (job_id j) \<noteq> None")
  case True
  then show ?thesis by (simp add: get_all_jobs_def collect_jobs_all)
next
  case False
  then have "\<exists>j\<in>set (jobs w). first_row (rows w) (job_id j) = None" by simp
  then have "collect_jobs (rows w) (jobs w) [] = Inl AttributeError"
    by (rule collect_jobs_missing)
  with False show ?thesis by (simp add: get_all_jobs_def)
qed

theorem get_all_jobs_succeeds_iff_witness:
  "map (\<lambda>j. first_row (rows synced_world) (job_id j)) (jobs synced_world) =
     [Some scan1_row, Some poll2_row] \<and>
   fst (get_all_jobs synced_world) =
     Inr \<lparr>jobs_listed =
             [\<lparr>entry_id = ''scan-1'', entry_name = ''Periodic scan'',
               entry_time_interval = 10, entry_enabled = True\<rparr>,
              \<lparr>entry_id = ''poll-2'', entry_name = ''Alert polling'',
               entry_time_interval = 5, entry_enabled = False\<rparr>],
           jobs_success = True, jobs_message = ''Jobs successfully retrieved.''\<rparr>"
proof -
  have h: "\<forall>j\<in>set (jobs synced_world). first_row (rows synced_world) (job_id j) \<noteq> None"
    by (simp add: demo_defs)
  have r: "map (\<lambda>j. first_row (rows synced_world) (job_id j)) (jobs synced_world) =
     [Some scan1_row, Some poll2_row]"
    by (simp add: demo_defs)
  have m: "map (\<lambda>j. \<lparr>entry_id = job_id j, entry_name = job_name j,
                    entry_time_interval =
                      time_interval (the (first_row (rows synced_world) (job_id j))),
                    entry_enabled =
                      enabled (the (first_row (rows synced_world) (job_id j)))\<rparr>)
               (jobs synced_world) =
             [\<lparr>entry_id = ''scan-1'', entry_name = ''Periodic scan'',
               entry_time_interval = 10, entry_enabled = True\<rparr>,
              \<lparr>entry_id = ''poll-2'', entry_name = ''Alert polling'',
               entry_time_interval = 5, entry_enabled = False\<rparr>]"
    by (simp add: demo_defs)
  from get_all_jobs_succeeds_iff [of synced_world] h m r show ?thesis
    by simp
qed

section \<open>Rescheduling\<close>

text \<open>
  The claim that a non-positive interval is refused fails: \<^verbatim>\<open>update_job\<close> with 0 and
  with -5 answers success; the trigger's interval, 600 seconds before, is one second
  and -300 seconds afterwards, and the row's \<^verbatim>\<open>time_interval\<close>, 10 before, is 0
  and -5.
\<close>

theorem update_job_nonpositive_counterexample:
  "engine_interval synced_world ''scan-1'' = Some 600 \<and>
   store_interval synced_world ''scan-1'' = Some 10 \<and>
   fst (update_job ''scan-1'' 0 synced_world) =
     Inr \<lparr>success = True, message = ''Job updated successfully''\<rparr> \<and>
   engine_interval (snd (update_job ''scan-1'' 0 synced_world)) ''scan-1'' = Some 1 \<and>
   store_interval (snd (update_job ''scan-1'' 0 synced_world)) ''scan-1'' = Some 0 \<and>
   fst (update_job ''scan-1'' (- 5) synced_world) =
     Inr \<lparr>success = True, message = ''Job updated successfully''\<rparr> \<and>
   engine_interval (snd (update_job ''scan-1'' (- 5) synced_world)) ''scan-1'' =
     Some (- 300) \<and>
   store_interval (snd (update_job ''scan-1'' (- 5) synced_world)) ''scan-1'' = Some (- 5)"
  by (simp add: observer_defs route_defs demo_defs)

text \<open>
  C4 (amended): \<^verbatim>\<open>update_job\<close> does not check the sign of the interval and never
  answers with an invalid-interval result. For a job the scheduler holds and that has a
  metadata row, a non-positive \<^verbatim>\<open>time_interval\<close> whose start date (the clock plus
  the interval, one second for 0) is a representable date is accepted: the route
  answers \<^verbatim>\<open>{"success": True, "message": "Job updated successfully"}\<close>, the job's
  trigger has that interval (60 seconds per minute, one second for 0) and the row's
  \<^verbatim>\<open>time_interval\<close> is the requested value. Otherwise \<^verbatim>\<open>OverflowError\<close>
  escapes the route and neither the scheduler nor the table is changed.
\<close>

theorem update_job_nonpositive:
  assumes "jid \<in> job_id ` set (jobs w)" and "jid \<in> md_job_id ` set (rows w)"
    and "m \<le> 0"
  shows "(if 0 \<le> clock w + (if m = 0 then 1 else 60 * m) \<and>
            clock w + (if m = 0 then 1 else 60 * m) \<le> datetime_max
          then fst (update_job jid m w) =
                 Inr \<lparr>success = True, message = ''Job updated successfully''\<rparr> \<and>
               engine_interval (snd (update_job jid m w)) jid =
                 Some (if m = 0 then 1 else 60 * m) \<and>
               store_interval (snd (update_job jid m w)) jid = Some m
          else update_job jid m w = (Inl OverflowError, w))"
proof -
  from assms(1) obtain j where j: "find_job_by_id (jobs w) jid = Some j"
    using find_job_by_id_None [of "jobs w" jid] by (cases "find_job_by_id (jobs w) jid") auto
  from assms(2) obtain r where r: "first_row (rows w) jid = Some r"
    using first_row_None [of "rows w" jid] by (cases "first_row (rows w) jid") auto
  from j have id: "job_id j = jid" by (simp add: find_job_by_id_Some)
  from r have rid: "md_job_id r = jid" by (simp add: first_row_Some)
  let ?len = "if m = 0 then 1 else 60 * m"
  show ?thesis
  proof (cases "0 \<le> clock w + ?len \<and> clock w + ?len \<le> datetime_max")
    case True
    then have t: "interval_trigger m (clock w) =
        Inr \<lparr>start_date = clock w + ?len, interval_seconds = ?len\<rparr>"
      by (auto simp: interval_trigger_def Let_def)
    from True id rid show ?thesis
      by (simp add: update_job_found [OF j t r] observer_defs find_job_by_id_refile
            first_row_store_row r)
  next
    case False
    then have t: "interval_trigger m (clock w) = Inl OverflowError"
      by (auto simp: interval_trigger_def Let_def)
    from False show ?thesis
      by (simp add: update_job_refused [OF j t])
  qed
qed

theorem update_job_nonpositive_witness:
  "fst (update_job ''scan-1'' (- 5) synced_world) =
     Inr \<lparr>success = True, message = ''Job updated successfully''\<rparr> \<and>
   engine_interval (snd (update_job ''scan-1'' (- 5) synced_world)) ''scan-1'' = Some (- 300) \<and>
   store_interval (snd (update_job ''scan-1'' (- 5) synced_world)) ''scan-1'' = Some (- 5) \<and>
   update_job ''scan-1'' (- 2000000000) synced_world = (Inl OverflowError, synced_world)"
proof -
  have h1: "''scan-1'' \<in> job_id ` set (jobs synced_world)"
    by (simp add: demo_defs)
  have h2: "''scan-1'' \<in> md_job_id ` set (rows synced_world)"
    by (simp add: demo_defs)
  have c: "clock synced_world = 63929379600"
    by (simp add: demo_defs)
  have a: "(- 5 :: int) \<le> 0" by simp
  have b: "(- 2000000000 :: int) \<le> 0" by simp
  from update_job_nonpositive [OF h1 h2 a] update_job_nonpositive [OF h1 h2 b] c
  show ?thesis
    by (simp add: datetime_max_def)
qed

section \<open>The table as a mirror of the scheduler\<close>

text \<open>
  The claim that the row's \<^verbatim>\<open>enabled\<close> flag follows the run state fails: starting the
  paused second job succeeds and schedules it, and its row still says
  \<^verbatim>\<open>enabled = False\<close>.
\<close>

theorem start_job_store_stale_counterexample:
  "engine_state synced_world ''poll-2'' = Some Paused \<and>
   store_enabled synced_world ''poll-2'' = Some False \<and>
   fst (start_job ''poll-2'' synced_world) =
     Inr \<lparr>success = True, message = ''Job started successfully''\<rparr> \<and>
   engine_state (snd (start_job ''poll-2'' synced_world)) ''poll-2'' = Some Scheduled \<and>
   store_enabled (snd (start_job ''poll-2'' synced_world)) ''poll-2'' = Some False"
  by (simp add: observer_defs state_def route_defs demo_defs)

lemma run_command_step:
  assumes run: "run_command jid (t, c) w = (Inr r, w1)" and ok: "success r"
  shows "store_enabled w1 jid = store_enabled w jid \<and>
    (c \<noteq> Update 0 \<longrightarrow>
       engine_interval w jid = map_option (\<lambda>m. 60 * m) (store_interval w jid) \<longrightarrow>
       engine_interval w1 jid = map_option (\<lambda>m. 60 * m) (store_interval w1 jid)) \<and>
    (c = Start \<longrightarrow> engine_state w1 jid = Some Scheduled) \<and>
    (c = Pause \<longrightarrow> engine_state w1 jid = Some Paused)"
proof -
  let ?w = "w\<lparr>clock := t\<rparr>"
  obtain j where j: "find_job_by_id (jobs ?w) jid = Some j"
  proof (cases "find_job_by_id (jobs ?w) jid")
    case None
    with run ok show ?thesis
      by (cases c) (auto simp: start_job_def pause_job_def update_job_def not_found_def)
  next
    case (Some j)
    then show ?thesis by (rule that)
  qed
  then have id: "job_id j = jid" by (simp add: find_job_by_id_Some)
  show ?thesis
  proof (cases c)
    case Start
    with run have "w1 = snd (start_job jid ?w)" by simp
    then show ?thesis
      using j id Start
      by (simp add: start_job_found [OF j] observer_defs find_job_by_id_refile state_def)
  next
    case Pause
    with run have "w1 = snd (pause_job jid ?w)" by simp
    then show ?thesis
      using j id Pause
      by (simp add: pause_job_found [OF j] observer_defs find_job_by_id_refile state_def)
  next
    case (Update m)
    with run have u: "update_job jid m ?w = (Inr r, w1)" by simp
    show ?thesis
    proof (cases "interval_trigger m (clock ?w)")
      case (Inl e)
      from update_job_refused [OF j Inl] u show ?thesis by simp
    next
      case (Inr tr)
      then have len: "m \<noteq> 0 \<longrightarrow> interval_seconds tr = 60 * m"
        by (auto simp: interval_trigger_def Let_def split: if_splits)
      show ?thesis
      proof (cases "first_row (rows ?w) jid")
        case None
        from update_job_no_row [OF j None, of m] u show ?thesis by simp
      next
        case (Some row)
        then have rid: "md_job_id row = jid" by (simp add: first_row_Some)
        from u have "w1 = snd (update_job jid m ?w)" by simp
        then show ?thesis
          using j id Some rid Update len
          by (simp add: update_job_found [OF j Inr Some] observer_defs find_job_by_id_refile
                first_row_store_row)
      qed
    qed
  qed
qed

lemma run_commands_Cons:
  "run_commands jid (c # cs) w = Some w' \<Longrightarrow>
   \<exists>r w1. run_command jid c w = (Inr r, w1) \<and> success r \<and> run_commands jid cs w1 = Some w'"
  by (auto split: prod.splits sum.splits if_splits)

text \<open>
  C1 (amended): take a job whose trigger interval is its row's \<^verbatim>\<open>time_interval\<close>
  (60 seconds per minute). After any sequence of \<^verbatim>\<open>start_job\<close>, \<^verbatim>\<open>pause_job\<close>
  and \<^verbatim>\<open>update_job\<close> calls on it that each return success, none of them an update
  to 0 minutes, the trigger interval is again the row's \<^verbatim>\<open>time_interval\<close>. The
  row's \<^verbatim>\<open>enabled\<close> flag is what it was before the sequence: a successful
  \<^verbatim>\<open>start_job\<close> leaves the job scheduled and a successful \<^verbatim>\<open>pause_job\<close> leaves it
  paused in the scheduler only.
\<close>

theorem store_mirror_after_commands:
  assumes "run_commands jid cs w = Some w'"
    and "engine_interval w jid = map_option (\<lambda>m. 60 * m) (store_interval w jid)"
    and "Update 0 \<notin> snd ` set cs"
  shows "engine_interval w' jid = map_option (\<lambda>m. 60 * m) (store_interval w' jid) \<and>
    store_enabled w' jid = store_enabled w jid \<and>
    (cs \<noteq> [] \<and> snd (last cs) = Start \<longrightarrow> engine_state w' jid = Some Scheduled) \<and>
    (cs \<noteq> [] \<and> snd (last cs) = Pause \<longrightarrow> engine_state w' jid = Some Paused)"
  using assms
proof (induction cs arbitrary: w)
  case Nil
  then show ?case by simp
next
  case (Cons tc cs)
  obtain t c where tc: "tc = (t, c)" by (cases tc)
  from run_commands_Cons [OF Cons.prems(1)] obtain r w1 where
    step: "run_command jid tc w = (Inr r, w1)" and ok: "success r"
    and rest: "run_commands jid cs w1 = Some w'"
    by blast
  from Cons.prems(3) tc have nz: "c \<noteq> Update 0" and nzs: "Update 0 \<notin> snd ` set cs"
    by auto
  note facts = run_command_step [OF step [unfolded tc] ok]
  from facts nz Cons.prems(2)
  have sync: "engine_interval w1 jid = map_option (\<lambda>m. 60 * m) (store_interval w1 jid)"
    by simp
  note ih = Cons.IH [OF rest sync nzs]
  show ?case
  proof (cases "cs = []")
    case True
    with rest have "w' = w1" by simp
    with True facts sync tc show ?thesis by simp
  next
    case False
    with ih facts show ?thesis by simp
  qed
qed

theorem store_mirror_after_commands_witness:
  "run_commands ''poll-2''
     [(morning + 60, Update 30), (morning + 120, Pause), (morning + 180, Start)]
     synced_world = Some rescheduled_world \<and>
   engine_interval synced_world ''poll-2'' = Some 300 \<and>
   store_interval synced_world ''poll-2'' = Some 5 \<and>
   engine_interval rescheduled_world ''poll-2'' = Some 1800 \<and>
   store_interval rescheduled_world ''poll-2'' = Some 30 \<and>
   store_enabled rescheduled_world ''poll-2'' = Some False \<and>
   engine_state rescheduled_world ''poll-2'' = Some Scheduled"
proof -
  have h1: "run_commands ''poll-2''
     [(morning + 60, Update 30), (morning + 120, Pause), (morning + 180, Start)]
     synced_world = Some rescheduled_world"
    by (simp add: route_defs demo_defs)
  have e: "engine_interval synced_world ''poll-2'' = Some 300"
    by (simp add: observer_defs demo_defs)
  have s: "store_interval synced_world ''poll-2'' = Some 5"
    by (simp add: observer_defs demo_defs)
  have h2: "engine_interval synced_world ''poll-2'' =
      map_option (\<lambda>m. 60 * m) (store_interval synced_world ''poll-2'')"
    by (simp add: e s)
  have h3: "Update 0 \<notin> snd ` set
     [(morning + 60, Update 30), (morning + 120, Pause), (morning + 180, Start)]"
    by simp
  have si: "store_interval rescheduled_world ''poll-2'' = Some 30"
    by (simp add: observer_defs demo_defs)
  have se: "store_enabled synced_world ''poll-2'' = Some False"
    by (simp add: observer_defs demo_defs)
  from store_mirror_after_commands [OF h1 h2 h3] h1 e s si se show ?thesis
    by simp
qed

end
